theory Spec2Isabelle
  imports Main
begin

section \<open>Python values\<close>

text \<open>
  The repository is five small Python files: two Lambda handler stubs, a Glue job script,
  a module of three utilities and a unit test. Its functions take and return untyped Python
  values, so the embedding starts with a datatype of such values.

  A \<open>str\<close> is the list of its code points; the model covers code points below 256, which
  is what a HOL \<open>char\<close> holds. A float is carried by the text \<open>float.__repr__\<close> gives
  it, because floating point arithmetic is not modelled. A dict and a set are carried as
  lists in iteration order. \<open>PObject c r s\<close> is an instance of a class named \<open>c\<close> that is
  neither one of the built-in types above nor a subclass of one: \<open>r\<close> is what its
  \<open>__repr__\<close> does and \<open>s\<close> what its \<open>__str__\<close> does, each either raising or returning
  text.

  Interpreter resource limits (recursion depth, memory, the integer to string digit
  limit) and reference cycles are outside the model; values are finite trees.
\<close>

datatype py_error =
    TypeError string
  | KeyError string
  | Raised string string

datatype pyfloat = FFinite string | FNan | FInf | FNegInf

datatype pyval =
    PNone
  | PBool bool
  | PInt int
  | PFloat pyfloat
  | PStr string
  | PList "pyval list"
  | PTuple "pyval list"
  | PDict "(pyval \<times> pyval) list"
  | PSet "pyval list"
  | PObject string "py_error + string" "py_error + string"

fun type_name :: "pyval \<Rightarrow> string" where
  "type_name PNone = ''NoneType''"
| "type_name (PBool _) = ''bool''"
| "type_name (PInt _) = ''int''"
| "type_name (PFloat _) = ''float''"
| "type_name (PStr _) = ''str''"
| "type_name (PList _) = ''list''"
| "type_name (PTuple _) = ''tuple''"
| "type_name (PDict _) = ''dict''"
| "type_name (PSet _) = ''set''"
| "type_name (PObject c _ _) = c"

subsection \<open>Numbers as text\<close>

definition digit_char :: "nat \<Rightarrow> char" where
  "digit_char d = ''0123456789abcdef'' ! (d mod 16)"

function nat_digits :: "nat \<Rightarrow> string" where
  "nat_digits n = (if n < 10 then [digit_char n] else nat_digits (n div 10) @ [digit_char (n mod 10)])"
  by pat_completeness auto
termination
  by (relation "measure id") auto

declare nat_digits.simps [simp del]

definition int_repr :: "int \<Rightarrow> string" where
  "int_repr i = (if i < 0 then CHR ''-'' # nat_digits (nat (- i)) else nat_digits (nat i))"

definition float_repr :: "pyfloat \<Rightarrow> string" where
  "float_repr f = (case f of FFinite t \<Rightarrow> t | FNan \<Rightarrow> ''nan'' | FInf \<Rightarrow> ''inf'' | FNegInf \<Rightarrow> ''-inf'')"

definition hex2 :: "nat \<Rightarrow> string" where
  "hex2 n = [digit_char (n div 16), digit_char (n mod 16)]"

subsection \<open>\<open>repr\<close> and \<open>str\<close>\<close>

text \<open>
  \<open>repr\<close> of a \<open>str\<close>: single quotes unless the text holds a single quote and no double
  quote; the quote and the backslash get a backslash, tab, newline and carriage return
  their letter, every other non-printable code point \<open>\xNN\<close>. Below 256 the non-printable
  code points are the C0 and C1 controls, DEL, the no-break space and the soft hyphen.
\<close>

definition printable :: "char \<Rightarrow> bool" where
  "printable c = (let n = (of_char c :: nat) in
     (32 \<le> n \<and> n < 127) \<or> (161 \<le> n \<and> n \<noteq> 173))"

definition repr_char :: "char \<Rightarrow> char \<Rightarrow> string" where
  "repr_char q c =
     (if c = q \<or> c = CHR 0x5C then [CHR 0x5C, c]
      else if c = CHR 0x09 then [CHR 0x5C, CHR ''t'']
      else if c = CHR 0x0A then [CHR 0x5C, CHR ''n'']
      else if c = CHR 0x0D then [CHR 0x5C, CHR ''r'']
      else if printable c then [c]
      else [CHR 0x5C, CHR ''x''] @ hex2 (of_char c))"

definition str_repr :: "string \<Rightarrow> string" where
  "str_repr s =
     (let q = (if CHR 0x27 \<in> set s \<and> CHR 0x22 \<notin> set s then CHR 0x22 else CHR 0x27)
      in [q] @ concat (map (repr_char q) s) @ [q])"

fun join :: "string \<Rightarrow> string list \<Rightarrow> string" where
  "join sep [] = []"
| "join sep [x] = x"
| "join sep (x # y # ys) = x @ sep @ join sep (y # ys)"

definition tuple_text :: "string list \<Rightarrow> string" where
  "tuple_text ts = (case ts of [t] \<Rightarrow> ''('' @ t @ '',)'' | _ \<Rightarrow> ''('' @ join '', '' ts @ '')'')"

definition set_text :: "string list \<Rightarrow> string" where
  "set_text ts = (if ts = [] then ''set()'' else ''{'' @ join '', '' ts @ ''}'')"

function py_repr :: "pyval \<Rightarrow> py_error + string"
  and py_repr_list :: "pyval list \<Rightarrow> py_error + string list"
  and py_repr_items :: "(pyval \<times> pyval) list \<Rightarrow> py_error + string list" where
  "py_repr PNone = Inr ''None''"
| "py_repr (PBool b) = Inr (if b then ''True'' else ''False'')"
| "py_repr (PInt i) = Inr (int_repr i)"
| "py_repr (PFloat f) = Inr (float_repr f)"
| "py_repr (PStr s) = Inr (str_repr s)"
| "py_repr (PList xs) =
     (case py_repr_list xs of Inl e \<Rightarrow> Inl e | Inr ts \<Rightarrow> Inr (''['' @ join '', '' ts @ '']''))"
| "py_repr (PTuple xs) =
     (case py_repr_list xs of Inl e \<Rightarrow> Inl e | Inr ts \<Rightarrow> Inr (tuple_text ts))"
| "py_repr (PDict kvs) =
     (case py_repr_items kvs of Inl e \<Rightarrow> Inl e | Inr ts \<Rightarrow> Inr (''{'' @ join '', '' ts @ ''}''))"
| "py_repr (PSet xs) =
     (case py_repr_list xs of Inl e \<Rightarrow> Inl e | Inr ts \<Rightarrow> Inr (set_text ts))"
| "py_repr (PObject c r s) = r"
| "py_repr_list [] = Inr []"
| "py_repr_list (x # xs) =
     (case py_repr x of Inl e \<Rightarrow> Inl e
      | Inr t \<Rightarrow> (case py_repr_list xs of Inl e \<Rightarrow> Inl e | Inr ts \<Rightarrow> Inr (t # ts)))"
| "py_repr_items [] = Inr []"
| "py_repr_items ((k, v) # kvs) =
     (case py_repr k of Inl e \<Rightarrow> Inl e
      | Inr tk \<Rightarrow> (case py_repr v of Inl e \<Rightarrow> Inl e
      | Inr tv \<Rightarrow> (case py_repr_items kvs of Inl e \<Rightarrow> Inl e
      | Inr ts \<Rightarrow> Inr ((tk @ '': '' @ tv) # ts))))"
  by pat_completeness auto
termination
  by (relation "measure (case_sum size (case_sum (size_list size) (size_list (size_prod size size))))")
    auto

text \<open>
  \<open>str(x)\<close>: the text itself for a \<open>str\<close>, the class's \<open>__str__\<close> for an object, and
  \<open>repr(x)\<close> for every other built-in value.
\<close>

fun py_str :: "pyval \<Rightarrow> py_error + string" where
  "py_str (PStr s) = Inr s"
| "py_str (PObject c r s) = s"
| "py_str v = py_repr v"

text \<open>
  \<open>plain v\<close>: no instance of a user class anywhere in \<open>v\<close>.
\<close>

fun plain :: "pyval \<Rightarrow> bool" where
  "plain (PList xs) = list_all plain xs"
| "plain (PTuple xs) = list_all plain xs"
| "plain (PSet xs) = list_all plain xs"
| "plain (PDict kvs) = list_all (\<lambda>kv. plain (fst kv) \<and> plain (snd kv)) kvs"
| "plain (PObject _ _ _) = False"
| "plain _ = True"

fun isinstance_str :: "pyval \<Rightarrow> bool" where
  "isinstance_str (PStr _) = True"
| "isinstance_str _ = False"

subsection \<open>Dictionaries\<close>

definition dict_keys :: "pyval \<Rightarrow> pyval list" where
  "dict_keys d = (case d of PDict kvs \<Rightarrow> map fst kvs | _ \<Rightarrow> [])"

definition dict_get :: "pyval \<Rightarrow> string \<Rightarrow> pyval option" where
  "dict_get d k = (case d of PDict kvs \<Rightarrow> map_of kvs (PStr k) | _ \<Rightarrow> None)"

section \<open>\<open>json.dumps\<close> with its default arguments\<close>

text \<open>
  The handlers call \<open>json.dumps(obj)\<close> with no option, so: \<open>ensure_ascii\<close> escapes every
  code point outside the printable ASCII range, the separators are \<open>", "\<close> and \<open>": "\<close>,
  \<open>allow_nan\<close> writes \<open>NaN\<close>, \<open>Infinity\<close> and \<open>-Infinity\<close>, a tuple is written as a list,
  a dict key that is a \<open>str\<close>, number, bool or \<open>None\<close> is written as text, and any other
  key raises \<open>TypeError\<close> (\<open>skipkeys\<close> is off), as does a value of any other type (the
  default hook). The first failure in iteration order is the one raised.
\<close>

definition json_escape_char :: "char \<Rightarrow> string" where
  "json_escape_char c =
     (if c = CHR 0x22 then [CHR 0x5C, CHR 0x22]
      else if c = CHR 0x5C then [CHR 0x5C, CHR 0x5C]
      else if c = CHR 0x0A then [CHR 0x5C, CHR ''n'']
      else if c = CHR 0x0D then [CHR 0x5C, CHR ''r'']
      else if c = CHR 0x09 then [CHR 0x5C, CHR ''t'']
      else if c = CHR 0x08 then [CHR 0x5C, CHR ''b'']
      else if c = CHR 0x0C then [CHR 0x5C, CHR ''f'']
      else if 32 \<le> (of_char c :: nat) \<and> (of_char c :: nat) \<le> 126 then [c]
      else [CHR 0x5C, CHR ''u'', CHR ''0'', CHR ''0''] @ hex2 (of_char c))"

definition json_string :: "string \<Rightarrow> string" where
  "json_string s = [CHR 0x22] @ concat (map json_escape_char s) @ [CHR 0x22]"

definition json_float :: "pyfloat \<Rightarrow> string" where
  "json_float f =
     (case f of FFinite t \<Rightarrow> t | FNan \<Rightarrow> ''NaN'' | FInf \<Rightarrow> ''Infinity'' | FNegInf \<Rightarrow> ''-Infinity'')"

fun json_key :: "pyval \<Rightarrow> py_error + string" where
  "json_key (PStr s) = Inr s"
| "json_key (PFloat f) = Inr (json_float f)"
| "json_key (PBool b) = Inr (if b then ''true'' else ''false'')"
| "json_key PNone = Inr ''null''"
| "json_key (PInt i) = Inr (int_repr i)"
| "json_key k = Inl (TypeError (''keys must be str, int, float, bool or None, not '' @ type_name k))"

function json_dumps :: "pyval \<Rightarrow> py_error + string"
  and json_dumps_list :: "pyval list \<Rightarrow> py_error + string list"
  and json_dumps_items :: "(pyval \<times> pyval) list \<Rightarrow> py_error + string list" where
  "json_dumps PNone = Inr ''null''"
| "json_dumps (PBool b) = Inr (if b then ''true'' else ''false'')"
| "json_dumps (PInt i) = Inr (int_repr i)"
| "json_dumps (PFloat f) = Inr (json_float f)"
| "json_dumps (PStr s) = Inr (json_string s)"
| "json_dumps (PList xs) =
     (case json_dumps_list xs of Inl e \<Rightarrow> Inl e | Inr ts \<Rightarrow> Inr (''['' @ join '', '' ts @ '']''))"
| "json_dumps (PTuple xs) =
     (case json_dumps_list xs of Inl e \<Rightarrow> Inl e | Inr ts \<Rightarrow> Inr (''['' @ join '', '' ts @ '']''))"
| "json_dumps (PDict kvs) =
     (case json_dumps_items kvs of Inl e \<Rightarrow> Inl e | Inr ts \<Rightarrow> Inr (''{'' @ join '', '' ts @ ''}''))"
| "json_dumps (PSet xs) = Inl (TypeError ''Object of type set is not JSON serializable'')"
| "json_dumps (PObject c r s) =
     Inl (TypeError (''Object of type '' @ c @ '' is not JSON serializable''))"
| "json_dumps_list [] = Inr []"
| "json_dumps_list (x # xs) =
     (case json_dumps x of Inl e \<Rightarrow> Inl e
      | Inr t \<Rightarrow> (case json_dumps_list xs of Inl e \<Rightarrow> Inl e | Inr ts \<Rightarrow> Inr (t # ts)))"
| "json_dumps_items [] = Inr []"
| "json_dumps_items ((k, v) # kvs) =
     (case json_key k of Inl e \<Rightarrow> Inl e
      | Inr tk \<Rightarrow> (case json_dumps v of Inl e \<Rightarrow> Inl e
      | Inr tv \<Rightarrow> (case json_dumps_items kvs of Inl e \<Rightarrow> Inl e
      | Inr ts \<Rightarrow> Inr ((json_string tk @ '': '' @ tv) # ts))))"
  by pat_completeness auto
termination
  by (relation "measure (case_sum size (case_sum (size_list size) (size_list (size_prod size size))))")
    auto

text \<open>
  The values \<open>json.loads\<close> produces, which is what the Lambda platform hands a handler:
  \<open>None\<close>, bools, numbers, text, lists, and dicts with text keys.
\<close>

fun is_json_value :: "pyval \<Rightarrow> bool" where
  "is_json_value PNone = True"
| "is_json_value (PBool _) = True"
| "is_json_value (PInt _) = True"
| "is_json_value (PFloat _) = True"
| "is_json_value (PStr _) = True"
| "is_json_value (PList xs) = list_all is_json_value xs"
| "is_json_value (PDict kvs) = list_all (\<lambda>kv. isinstance_str (fst kv) \<and> is_json_value (snd kv)) kvs"
| "is_json_value _ = False"

section \<open>The shared utilities (src/utils/common.py)\<close>

text \<open>
  \<open>create_lambda_response\<close> returns a dict literal with the keys \<open>statusCode\<close> and
  \<open>body\<close>; the body is the argument itself when it is a \<open>str\<close> and \<open>str(body)\<close>
  otherwise, whose exception, if any, propagates.
\<close>

definition create_lambda_response :: "pyval \<Rightarrow> pyval \<Rightarrow> py_error + pyval" where
  "create_lambda_response status_code body =
     (case (if isinstance_str body then Inr body
            else (case py_str body of Inl e \<Rightarrow> Inl e | Inr t \<Rightarrow> Inr (PStr t))) of
        Inl e \<Rightarrow> Inl e
      | Inr b \<Rightarrow> Inr (PDict [(PStr ''statusCode'', status_code), (PStr ''body'', b)]))"

text \<open>
  \<open>get_environment_variable\<close> is \<open>os.environ.get(name, default)\<close>. The process
  environment is a map from names to text, passed in and returned so that a change to it
  would show. On POSIX \<open>os.environ\<close> encodes the key before the lookup and raises
  \<open>TypeError\<close> for a key that is not a \<open>str\<close>. The parameter
  \<open>default\<close> is \<open>dflt\<close> here; a call that leaves it out passes \<open>PNone\<close>.
\<close>

type_synonym environ = "string \<rightharpoonup> string"

definition get_environment_variable ::
  "environ \<Rightarrow> pyval \<Rightarrow> pyval \<Rightarrow> (py_error + pyval) \<times> environ" where
  "get_environment_variable env name dflt =
     (case name of
        PStr n \<Rightarrow> (case env n of Some v \<Rightarrow> (Inr (PStr v), env) | None \<Rightarrow> (Inr dflt, env))
      | _ \<Rightarrow> (Inl (TypeError (''str expected, not '' @ type_name name)), env))"

definition hello_world :: pyval where
  "hello_world = PStr ''Hello World from Common Utils!''"

section \<open>The handler stubs (src/lambda)\<close>

text \<open>
  A run of a handler is the lines it printed and its outcome: the exception that left
  it, or the value it returned. Both handlers print a greeting, then the event as JSON
  text (where \<open>json.dumps\<close> can raise, before the second line is printed), and return a
  dict literal whose body is the JSON text of a fixed dict.
\<close>

type_synonym run = "string list \<times> (py_error + pyval)"

definition release_lock_body :: pyval where
  "release_lock_body =
     PDict [(PStr ''message'', PStr ''Hello World from Release Lock Lambda''),
            (PStr ''lock_released'', PBool True)]"

definition release_lock_lambda_handler :: "pyval \<Rightarrow> pyval \<Rightarrow> run" where
  "release_lock_lambda_handler event context =
     (let out1 = [''Hello World - Release Lock Lambda''] in
      case json_dumps event of
        Inl e \<Rightarrow> (out1, Inl e)
      | Inr t \<Rightarrow>
          (let out2 = out1 @ [''Received event: '' @ t] in
           case json_dumps release_lock_body of
             Inl e \<Rightarrow> (out2, Inl e)
           | Inr b \<Rightarrow> (out2, Inr (PDict [(PStr ''statusCode'', PInt 200), (PStr ''body'', PStr b)]))))"

definition s3_trigger_body :: pyval where
  "s3_trigger_body =
     PDict [(PStr ''message'', PStr ''Hello World from S3 Trigger Lambda''),
            (PStr ''event_processed'', PBool True)]"

definition s3_trigger_lambda_handler :: "pyval \<Rightarrow> pyval \<Rightarrow> run" where
  "s3_trigger_lambda_handler event context =
     (let out1 = [''Hello World - S3 Trigger Lambda''] in
      case json_dumps event of
        Inl e \<Rightarrow> (out1, Inl e)
      | Inr t \<Rightarrow>
          (let out2 = out1 @ [''Received event: '' @ t] in
           case json_dumps s3_trigger_body of
             Inl e \<Rightarrow> (out2, Inl e)
           | Inr b \<Rightarrow> (out2, Inr (PDict [(PStr ''statusCode'', PInt 200), (PStr ''body'', PStr b)]))))"

section \<open>The batch job stub (src/glue/raw_ingestion_job.py)\<close>








section \<open>Facts about the library models\<close>

lemma release_lock_body_text:
  "json_dumps release_lock_body =
     Inr ''{\"message\": \"Hello World from Release Lock Lambda\", \"lock_released\": true}''"
  by (simp add: release_lock_body_def json_string_def json_escape_char_def)

lemma s3_trigger_body_text:
  "json_dumps s3_trigger_body =
     Inr ''{\"message\": \"Hello World from S3 Trigger Lambda\", \"event_processed\": true}''"
  by (simp add: s3_trigger_body_def json_string_def json_escape_char_def)

text \<open>Every value \<open>json.loads\<close> can produce is serialized without an exception.\<close>

lemma json_key_str: "isinstance_str k \<Longrightarrow> \<exists>t. json_key k = Inr t"
  by (cases k) auto

lemma json_dumps_total_aux:
  shows "is_json_value v \<Longrightarrow> \<exists>t. json_dumps v = Inr t"
    and "list_all is_json_value vs \<Longrightarrow> \<exists>ts. json_dumps_list vs = Inr ts"
    and "list_all (\<lambda>kv. isinstance_str (fst kv) \<and> is_json_value (snd kv)) kvs \<Longrightarrow>
      \<exists>ts. json_dumps_items kvs = Inr ts"
proof (induction v and vs and kvs rule: json_dumps_json_dumps_list_json_dumps_items.induct)
  case (14 k v kvs)
  from "14.prems" have pk: "isinstance_str k" and pv: "is_json_value v"
    and pr: "list_all (\<lambda>kv. isinstance_str (fst kv) \<and> is_json_value (snd kv)) kvs"
    by simp_all
  from pk obtain tk where tk: "json_key k = Inr tk"
    using json_key_str by blast
  from "14.IH"(1) [OF tk pv] obtain tv where tv: "json_dumps v = Inr tv"
    by blast
  from "14.IH"(2) [OF tk tv pr] obtain ts where "json_dumps_items kvs = Inr ts"
    by blast
  with tk tv show ?case
    by simp
qed auto

lemma json_value_serializable: "is_json_value v \<Longrightarrow> \<exists>t. json_dumps v = Inr t"
  by (rule json_dumps_total_aux(1))

text \<open>For a plain value \<open>repr\<close> and \<open>str\<close> return.\<close>

lemma py_repr_total_aux:
  shows "plain v \<Longrightarrow> \<exists>t. py_repr v = Inr t"
    and "list_all plain vs \<Longrightarrow> \<exists>ts. py_repr_list vs = Inr ts"
    and "list_all (\<lambda>kv. plain (fst kv) \<and> plain (snd kv)) kvs \<Longrightarrow> \<exists>ts. py_repr_items kvs = Inr ts"
proof (induction v and vs and kvs rule: py_repr_py_repr_list_py_repr_items.induct)
  case (14 k v kvs)
  from "14.prems" have pk: "plain k" and pv: "plain v"
    and pr: "list_all (\<lambda>kv. plain (fst kv) \<and> plain (snd kv)) kvs"
    by simp_all
  from "14.IH"(1) [OF pk] obtain tk where tk: "py_repr k = Inr tk"
    by blast
  from "14.IH"(2) [OF tk pv] obtain tv where tv: "py_repr v = Inr tv"
    by blast
  from "14.IH"(3) [OF tk tv pr] obtain ts where "py_repr_items kvs = Inr ts"
    by blast
  with tk tv show ?case
    by simp
qed auto

lemma plain_has_text: "plain v \<Longrightarrow> \<exists>t. py_str v = Inr t"
  using py_repr_total_aux(1) [of v] by (cases v) auto

text \<open>What a run of each handler is, by the outcome of \<open>json.dumps(event)\<close>.\<close>

lemma release_lock_run:
  "release_lock_lambda_handler event context =
     (case json_dumps event of
        Inl e \<Rightarrow> ([''Hello World - Release Lock Lambda''], Inl e)
      | Inr t \<Rightarrow>
          ([''Hello World - Release Lock Lambda'', ''Received event: '' @ t],
           Inr (PDict [(PStr ''statusCode'', PInt 200),
                       (PStr ''body'', PStr ''{\"message\": \"Hello World from Release Lock Lambda\", \"lock_released\": true}'')])))"
  by (simp add: release_lock_lambda_handler_def release_lock_body_text split: sum.splits)

lemma s3_trigger_run:
  "s3_trigger_lambda_handler event context =
     (case json_dumps event of
        Inl e \<Rightarrow> ([''Hello World - S3 Trigger Lambda''], Inl e)
      | Inr t \<Rightarrow>
          ([''Hello World - S3 Trigger Lambda'', ''Received event: '' @ t],
           Inr (PDict [(PStr ''statusCode'', PInt 200),
                       (PStr ''body'', PStr ''{\"message\": \"Hello World from S3 Trigger Lambda\", \"event_processed\": true}'')])))"
  by (simp add: s3_trigger_lambda_handler_def s3_trigger_body_text split: sum.splits)


section \<open>The handler stubs: claims\<close>

text \<open>
  C1 (as amended). For every event payload that \<open>json.dumps\<close> serializes and every
  context value, the lock-release handler prints its greeting line and the event's JSON
  text and returns the envelope with \<open>statusCode\<close> 200 and, as body, the JSON text of
  the fixed message with \<open>lock_released\<close> true. The envelope does not depend on the event
  or on the context. Every JSON-decoded payload is such an event.
\<close>

theorem release_lock_returns_fixed_envelope:
  "(json_dumps event = Inr t \<longrightarrow>
      release_lock_lambda_handler event context =
        ([''Hello World - Release Lock Lambda'', ''Received event: '' @ t],
         Inr (PDict [(PStr ''statusCode'', PInt 200),
                     (PStr ''body'', PStr ''{\"message\": \"Hello World from Release Lock Lambda\", \"lock_released\": true}'')]))) \<and>
   (is_json_value event \<longrightarrow>
      snd (release_lock_lambda_handler event context) =
        Inr (PDict [(PStr ''statusCode'', PInt 200),
                    (PStr ''body'', PStr ''{\"message\": \"Hello World from Release Lock Lambda\", \"lock_released\": true}'')]))"
proof -
  have "\<exists>u. json_dumps event = Inr u" if "is_json_value event"
    using that by (rule json_value_serializable)
  then show ?thesis
    by (auto simp add: release_lock_run)
qed

text \<open>The scenario of the specification: the event \<open>{}\<close>, here with the context \<open>7\<close>.\<close>

theorem release_lock_returns_fixed_envelope_witness:
  "json_dumps (PDict []) = Inr ''{}'' \<and> is_json_value (PDict []) \<and>
   release_lock_lambda_handler (PDict []) (PInt 7) =
     ([''Hello World - Release Lock Lambda'', ''Received event: {}''],
      Inr (PDict [(PStr ''statusCode'', PInt 200),
                  (PStr ''body'', PStr ''{\"message\": \"Hello World from Release Lock Lambda\", \"lock_released\": true}'')]))"
  using release_lock_returns_fixed_envelope [of "PDict []" "''{}''" "PInt 7"] by simp

text \<open>
  C1 as stated ("for every event payload") fails: for the mapping \<open>{"lock": {1}}\<close>, whose
  value is a set, the handler prints its greeting and then raises the \<open>TypeError\<close> of
  \<open>json.dumps\<close>; no envelope is returned.
\<close>

theorem release_lock_raises_on_set_value:
  "release_lock_lambda_handler (PDict [(PStr ''lock'', PSet [PInt 1])]) PNone =
     ([''Hello World - Release Lock Lambda''],
      Inl (TypeError ''Object of type set is not JSON serializable''))"
  by (simp add: release_lock_lambda_handler_def)

text \<open>
  C2 (as amended). For every event payload that \<open>json.dumps\<close> serializes and every
  context value, the upload-trigger handler prints its greeting line and the event's JSON
  text and returns the envelope with \<open>statusCode\<close> 200 and, as body, the JSON text of
  the fixed message with \<open>event_processed\<close> true. The event reaches the printed line only:
  the envelope is the same for every such event. Every JSON-decoded payload is such an
  event.
\<close>

theorem s3_trigger_returns_fixed_envelope:
  "(json_dumps event = Inr t \<longrightarrow>
      s3_trigger_lambda_handler event context =
        ([''Hello World - S3 Trigger Lambda'', ''Received event: '' @ t],
         Inr (PDict [(PStr ''statusCode'', PInt 200),
                     (PStr ''body'', PStr ''{\"message\": \"Hello World from S3 Trigger Lambda\", \"event_processed\": true}'')]))) \<and>
   (is_json_value event \<longrightarrow>
      snd (s3_trigger_lambda_handler event context) =
        Inr (PDict [(PStr ''statusCode'', PInt 200),
                    (PStr ''body'', PStr ''{\"message\": \"Hello World from S3 Trigger Lambda\", \"event_processed\": true}'')]))"
proof -
  have "\<exists>u. json_dumps event = Inr u" if "is_json_value event"
    using that by (rule json_value_serializable)
  then show ?thesis
    by (auto simp add: s3_trigger_run)
qed

text \<open>The scenario of the specification: the event \<open>{"bucket": "x", "key": "y"}\<close>.\<close>

theorem s3_trigger_returns_fixed_envelope_witness:
  "json_dumps (PDict [(PStr ''bucket'', PStr ''x''), (PStr ''key'', PStr ''y'')]) =
     Inr ''{\"bucket\": \"x\", \"key\": \"y\"}'' \<and>
   is_json_value (PDict [(PStr ''bucket'', PStr ''x''), (PStr ''key'', PStr ''y'')]) \<and>
   s3_trigger_lambda_handler (PDict [(PStr ''bucket'', PStr ''x''), (PStr ''key'', PStr ''y'')]) PNone =
     ([''Hello World - S3 Trigger Lambda'', ''Received event: {\"bucket\": \"x\", \"key\": \"y\"}''],
      Inr (PDict [(PStr ''statusCode'', PInt 200),
                  (PStr ''body'', PStr ''{\"message\": \"Hello World from S3 Trigger Lambda\", \"event_processed\": true}'')]))"
proof -
  have h: "json_dumps (PDict [(PStr ''bucket'', PStr ''x''), (PStr ''key'', PStr ''y'')]) =
     Inr ''{\"bucket\": \"x\", \"key\": \"y\"}''"
    by (simp add: json_string_def json_escape_char_def)
  show ?thesis
    using h s3_trigger_returns_fixed_envelope
      [of "PDict [(PStr ''bucket'', PStr ''x''), (PStr ''key'', PStr ''y'')]"
          "''{\"bucket\": \"x\", \"key\": \"y\"}''" PNone]
    by simp
qed

text \<open>
  C2 as stated fails: for the mapping \<open>{("bucket", "key"): 1}\<close>, whose key is a tuple,
  the handler prints its greeting and then raises the \<open>TypeError\<close> of \<open>json.dumps\<close>.
\<close>

theorem s3_trigger_raises_on_tuple_key:
  "s3_trigger_lambda_handler (PDict [(PTuple [PStr ''bucket'', PStr ''key''], PInt 1)]) PNone =
     ([''Hello World - S3 Trigger Lambda''],
      Inl (TypeError ''keys must be str, int, float, bool or None, not tuple''))"
  by (simp add: s3_trigger_lambda_handler_def)

text \<open>
  C4. When the event is not JSON-serializable, that is when \<open>json.dumps(event)\<close> raises,
  each handler ends with that exception after its greeting line alone: the line with the
  event is not printed and no envelope is built.
\<close>

theorem handlers_raise_on_unserializable_event:
  assumes "json_dumps event = Inl e"
  shows "release_lock_lambda_handler event context = ([''Hello World - Release Lock Lambda''], Inl e) \<and>
         s3_trigger_lambda_handler event context = ([''Hello World - S3 Trigger Lambda''], Inl e)"
  using assms by (simp add: release_lock_lambda_handler_def s3_trigger_lambda_handler_def)

text \<open>An event that holds a \<open>datetime\<close> object.\<close>

theorem handlers_raise_on_unserializable_event_witness:
  "json_dumps (PDict [(PStr ''when'', PObject ''datetime'' (Inr ''datetime.datetime(2024, 1, 1, 0, 0)'') (Inr ''2024-01-01 00:00:00''))]) =
     Inl (TypeError ''Object of type datetime is not JSON serializable'') \<and>
   release_lock_lambda_handler (PDict [(PStr ''when'', PObject ''datetime'' (Inr ''datetime.datetime(2024, 1, 1, 0, 0)'') (Inr ''2024-01-01 00:00:00''))]) PNone =
     ([''Hello World - Release Lock Lambda''], Inl (TypeError ''Object of type datetime is not JSON serializable'')) \<and>
   s3_trigger_lambda_handler (PDict [(PStr ''when'', PObject ''datetime'' (Inr ''datetime.datetime(2024, 1, 1, 0, 0)'') (Inr ''2024-01-01 00:00:00''))]) PNone =
     ([''Hello World - S3 Trigger Lambda''], Inl (TypeError ''Object of type datetime is not JSON serializable''))"
proof -
  have h: "json_dumps (PDict [(PStr ''when'', PObject ''datetime'' (Inr ''datetime.datetime(2024, 1, 1, 0, 0)'') (Inr ''2024-01-01 00:00:00''))]) =
     Inl (TypeError ''Object of type datetime is not JSON serializable'')"
    by simp
  show ?thesis
    using h handlers_raise_on_unserializable_event [OF h, of PNone] by simp
qed



text \<open>
  C8. The handlers build their envelopes by hand, without calling the utilities module,
  but whenever one returns, its envelope is what \<open>create_lambda_response\<close> returns for
  the status 200 and the JSON text of the handler's fixed body.
\<close>

theorem handlers_equal_create_lambda_response:
  "(snd (release_lock_lambda_handler event context) = Inr env \<longrightarrow>
      (\<exists>b. json_dumps release_lock_body = Inr b \<and>
           create_lambda_response (PInt 200) (PStr b) = Inr env)) \<and>
   (snd (s3_trigger_lambda_handler event context) = Inr env' \<longrightarrow>
      (\<exists>b. json_dumps s3_trigger_body = Inr b \<and>
           create_lambda_response (PInt 200) (PStr b) = Inr env'))"
  by (auto simp add: release_lock_run s3_trigger_run release_lock_body_text s3_trigger_body_text
      create_lambda_response_def split: sum.splits)

text \<open>Both handlers on the event \<open>{}\<close>.\<close>

theorem handlers_equal_create_lambda_response_witness:
  "snd (release_lock_lambda_handler (PDict []) PNone) = Inr (PDict [(PStr ''statusCode'', PInt 200), (PStr ''body'', PStr ''{\"message\": \"Hello World from Release Lock Lambda\", \"lock_released\": true}'')]) \<and>
   json_dumps release_lock_body = Inr ''{\"message\": \"Hello World from Release Lock Lambda\", \"lock_released\": true}'' \<and>
   create_lambda_response (PInt 200) (PStr ''{\"message\": \"Hello World from Release Lock Lambda\", \"lock_released\": true}'') = Inr (PDict [(PStr ''statusCode'', PInt 200), (PStr ''body'', PStr ''{\"message\": \"Hello World from Release Lock Lambda\", \"lock_released\": true}'')]) \<and>
   snd (s3_trigger_lambda_handler (PDict []) PNone) = Inr (PDict [(PStr ''statusCode'', PInt 200), (PStr ''body'', PStr ''{\"message\": \"Hello World from S3 Trigger Lambda\", \"event_processed\": true}'')]) \<and>
   json_dumps s3_trigger_body = Inr ''{\"message\": \"Hello World from S3 Trigger Lambda\", \"event_processed\": true}'' \<and>
   create_lambda_response (PInt 200) (PStr ''{\"message\": \"Hello World from S3 Trigger Lambda\", \"event_processed\": true}'') = Inr (PDict [(PStr ''statusCode'', PInt 200), (PStr ''body'', PStr ''{\"message\": \"Hello World from S3 Trigger Lambda\", \"event_processed\": true}'')])"
  using handlers_equal_create_lambda_response [of "PDict []" PNone "PDict [(PStr ''statusCode'', PInt 200), (PStr ''body'', PStr ''{\"message\": \"Hello World from Release Lock Lambda\", \"lock_released\": true}'')]" "PDict [(PStr ''statusCode'', PInt 200), (PStr ''body'', PStr ''{\"message\": \"Hello World from S3 Trigger Lambda\", \"event_processed\": true}'')]"]
  by (simp add: release_lock_run s3_trigger_run release_lock_body_text s3_trigger_body_text)

section \<open>The shared utilities: claims\<close>

text \<open>
  C10. \<open>hello_world()\<close> takes no argument and reads no state, so it is a constant: the
  text \<open>Hello World from Common Utils!\<close>.
\<close>

theorem hello_world_literal: "hello_world = PStr ''Hello World from Common Utils!''"
  by (simp add: hello_world_def)


text \<open>
  C3 (as amended). For every status code and every body whose text conversion returns,
  as it does (interpreter limits aside) for every plain value, \<open>create_lambda_response\<close>
  returns a dict with exactly the two keys \<open>statusCode\<close> and \<open>body\<close>, in that order.
\<close>

theorem create_lambda_response_two_fields:
  "(py_str body = Inr t \<longrightarrow>
      (\<exists>env. create_lambda_response status_code body = Inr env \<and>
             dict_keys env = [PStr ''statusCode'', PStr ''body''])) \<and>
   (plain body \<longrightarrow>
      (\<exists>env. create_lambda_response status_code body = Inr env \<and>
             dict_keys env = [PStr ''statusCode'', PStr ''body'']))"
proof -
  have a: "\<exists>env. create_lambda_response status_code body = Inr env \<and>
             dict_keys env = [PStr ''statusCode'', PStr ''body'']" if "py_str body = Inr u" for u
    using that by (simp add: create_lambda_response_def dict_keys_def)
  show ?thesis
    using a plain_has_text [of body] by blast
qed

text \<open>A status code that is not a number and a body that is one.\<close>

theorem create_lambda_response_two_fields_witness:
  "py_str (PInt 404) = Inr ''404'' \<and> plain (PInt 404) \<and>
   create_lambda_response (PStr ''teapot'') (PInt 404) =
     Inr (PDict [(PStr ''statusCode'', PStr ''teapot''), (PStr ''body'', PStr ''404'')]) \<and>
   dict_keys (PDict [(PStr ''statusCode'', PStr ''teapot''), (PStr ''body'', PStr ''404'')]) =
     [PStr ''statusCode'', PStr ''body'']"
proof -
  have h: "py_str (PInt 404) = Inr ''404''"
    by (simp add: int_repr_def nat_digits.simps digit_char_def)
  show ?thesis
    using h create_lambda_response_two_fields [of "PInt 404" "''404''" "PStr ''teapot''"]
    by (auto simp add: create_lambda_response_def dict_keys_def)
qed

text \<open>
  C3 as stated ("every body value of any type ... never raises") fails: for a body that
  is an instance of a class whose \<open>__str__\<close> raises, \<open>str(body)\<close> raises and so does
  \<open>create_lambda_response\<close>.
\<close>

theorem create_lambda_response_raises_with_str:
  "create_lambda_response (PInt 200)
     (PObject ''Broken'' (Inr ''<Broken>'') (Inl (Raised ''RuntimeError'' ''no text''))) =
   Inl (Raised ''RuntimeError'' ''no text'')"
  by (simp add: create_lambda_response_def)

text \<open>
  C5 (as amended). For every status code and every body whose text conversion returns
  \<open>t\<close>, \<open>create_lambda_response\<close> returns an envelope whose \<open>statusCode\<close> is the
  status code given and whose \<open>body\<close> is the body itself when that is a \<open>str\<close>, and
  the text \<open>t\<close> otherwise.
\<close>

theorem create_lambda_response_fields:
  assumes "py_str body = Inr t"
  shows "\<exists>env. create_lambda_response status_code body = Inr env \<and>
           dict_get env ''statusCode'' = Some status_code \<and>
           dict_get env ''body'' = Some (if isinstance_str body then body else PStr t)"
  using assms by (simp add: create_lambda_response_def dict_get_def)

text \<open>
  The call of the unit test, \<open>create_lambda_response(200, {"message": "success"})\<close>: the
  status code is 200 and the body is the \<open>repr\<close> text of the dict, not its JSON text.
\<close>

theorem create_lambda_response_fields_witness:
  "py_str (PDict [(PStr ''message'', PStr ''success'')]) = Inr ''{'message': 'success'}'' \<and>
   create_lambda_response (PInt 200) (PDict [(PStr ''message'', PStr ''success'')]) =
     Inr (PDict [(PStr ''statusCode'', PInt 200), (PStr ''body'', PStr ''{'message': 'success'}'')]) \<and>
   dict_get (PDict [(PStr ''statusCode'', PInt 200), (PStr ''body'', PStr ''{'message': 'success'}'')])
     ''statusCode'' = Some (PInt 200) \<and>
   dict_get (PDict [(PStr ''statusCode'', PInt 200), (PStr ''body'', PStr ''{'message': 'success'}'')])
     ''body'' = Some (PStr ''{'message': 'success'}'')"
proof -
  have h: "py_str (PDict [(PStr ''message'', PStr ''success'')]) = Inr ''{'message': 'success'}''"
    by (simp add: str_repr_def repr_char_def printable_def Let_def)
  show ?thesis
    using h create_lambda_response_fields [OF h, of "PInt 200"]
    by (auto simp add: create_lambda_response_def dict_get_def)
qed

text \<open>
  C5 as stated ("for every body ... returns an envelope") fails for a body whose
  \<open>__str__\<close> raises: no envelope is returned.
\<close>

theorem create_lambda_response_no_envelope:
  "create_lambda_response (PInt 500)
     (PObject ''Payload'' (Inr ''<Payload>'') (Inl (Raised ''ValueError'' ''cannot render''))) =
   Inl (Raised ''ValueError'' ''cannot render'')"
  by (simp add: create_lambda_response_def)

text \<open>
  C6. For every variable name and default, \<open>get_environment_variable\<close> returns the
  variable's value when the environment has it and the default when it has not, and
  leaves the environment as it was; in particular \<open>fallback\<close> for \<open>UNSET_NAME_X\<close> when
  that variable is not set.
\<close>

theorem get_environment_variable_lookup:
  "get_environment_variable env (PStr name) dflt =
     (Inr (case env name of Some v \<Rightarrow> PStr v | None \<Rightarrow> dflt), env) \<and>
   (env ''UNSET_NAME_X'' = None \<longrightarrow>
      get_environment_variable env (PStr ''UNSET_NAME_X'') (PStr ''fallback'') =
        (Inr (PStr ''fallback''), env))"
  by (simp add: get_environment_variable_def split: option.splits)

text \<open>An environment that holds \<open>HOME\<close> only.\<close>

theorem get_environment_variable_lookup_witness:
  "[''HOME'' \<mapsto> ''/root''] ''UNSET_NAME_X'' = None \<and>
   get_environment_variable [''HOME'' \<mapsto> ''/root''] (PStr ''UNSET_NAME_X'') (PStr ''fallback'') =
     (Inr (PStr ''fallback''), [''HOME'' \<mapsto> ''/root'']) \<and>
   get_environment_variable [''HOME'' \<mapsto> ''/root''] (PStr ''HOME'') (PStr ''fallback'') =
     (Inr (PStr ''/root''), [''HOME'' \<mapsto> ''/root''])"
  using get_environment_variable_lookup [of "[''HOME'' \<mapsto> ''/root'']" "''HOME''" "PStr ''fallback''"]
  by simp

section \<open>The batch job stub: claims\<close>




end
